theory Spec2Isabelle
  imports Main "HOL-Library.Word"
begin

unbundle bit_operations_syntax

section \<open>structex: annotation-driven transcoding of Go structures\<close>

text \<open>
  A shallow embedding of the Go package \<open>structex\<close>: the bit-level reader of
  \<open>decoder.go\<close>, the two bit-level writers found among the sources (the one that goes
  with \<open>align\<close> and the endianness handling, and the older one of \<open>encoder.go\<close>), the tag
  parser, the traversal \<open>transcoder.transcode\<close> and its three handlers (decoder, encoder,
  sizer).

  Go's \<open>uint64\<close> is \<open>64 word\<close>, a byte is \<open>8 word\<close>; \<open>int\<close>, \<open>uint\<close> and \<open>uintptr\<close> have
  64 bits (a 64-bit platform). An \<open>error\<close> result is \<open>error option\<close> (\<open>None\<close> is Go's
  \<open>nil\<close>), a result \<open>(value, error)\<close> is a sum; a Go panic is the error \<open>Panic\<close>, which
  every caller hands on.
\<close>

subsection \<open>Kinds, types and values\<close>

type_synonym byte = "8 word"
type_synonym uint64 = "64 word"

text \<open>
  \<open>reflect.Kind\<close>, restricted to the kinds the package can meet in a structure of
  integers and booleans: floating-point, complex, string, pointer, map, channel, function
  and interface kinds are left out. \<open>IntK\<close> is \<open>reflect.Int\<close>.
\<close>

datatype Kind =
    Bool | IntK | Int8 | Int16 | Int32 | Int64
  | Uint | Uint8 | Uint16 | Uint32 | Uint64 | Uintptr
  | Array | Slice | Struct

text \<open>
  \<open>reflect.Type\<close> with \<open>reflect.StructField\<close>. A field carries its raw tag and what
  \<open>sf.Tag.Lookup("structex")\<close> returns for it (the lookup is \<open>reflect\<close>'s, not this
  package's). \<open>Basic k\<close> is a type without components; for \<open>k\<close> one of \<open>Array\<close>, \<open>Slice\<close>,
  \<open>Struct\<close> it stands for no Go type.
\<close>

datatype Type =
    Basic Kind
  | ArrayOf nat Type
  | SliceOf Type
  | StructOf "StructField list"
and StructField =
    StructField (Name: string) (Typ: Type) (Tag: string) (Structex: "string option")
      (Exported: bool)

fun KindOf :: "Type \<Rightarrow> Kind" where
  "KindOf (Basic k) = k"
| "KindOf (ArrayOf n t) = Array"
| "KindOf (SliceOf t) = Slice"
| "KindOf (StructOf fs) = Struct"

text \<open>
  \<open>Type.Bits()\<close>: the size in bits of a sized or unsized integer kind; it panics for
  every other kind (\<open>None\<close>).
\<close>

fun Bits :: "Kind \<Rightarrow> nat option" where
  "Bits Int8 = Some 8"
| "Bits Uint8 = Some 8"
| "Bits Int16 = Some 16"
| "Bits Uint16 = Some 16"
| "Bits Int32 = Some 32"
| "Bits Uint32 = Some 32"
| "Bits Int64 = Some 64"
| "Bits Uint64 = Some 64"
| "Bits IntK = Some 64"
| "Bits Uint = Some 64"
| "Bits Uintptr = Some 64"
| "Bits Bool = None"
| "Bits Array = None"
| "Bits Slice = None"
| "Bits Struct = None"

text \<open>\<open>Type.Size()\<close> of a basic kind, in bytes.\<close>

fun SizeOfKind :: "Kind \<Rightarrow> uint64" where
  "SizeOfKind Bool = 1"
| "SizeOfKind k = (case Bits k of Some n \<Rightarrow> of_nat (n div 8) | None \<Rightarrow> 0)"

text \<open>
  A value as \<open>reflect.Value\<close> shows it: a scalar is the 64-bit number that \<open>getValue\<close>
  reads from it (\<open>Uint()\<close> for the unsigned kinds, \<open>uint64(Int())\<close>, sign-extended, for the
  signed ones, 1 or 0 for a boolean); arrays and slices are their elements, a structure
  is its fields in declaration order.
\<close>

datatype Value =
    Scalar uint64
  | Elems "Value list"
  | Fields "Value list"

datatype panic =
    TaggingError string Kind
  | BitsOfNonArithmetic Kind
  | FieldTypeUnsupported Kind
  | IndexOutOfRange
  | DivideByZero
  | SetOfUnsettable
  | NegativeLen
  | UintOfNonUint Kind
  | IllTyped
  | OutOfFuel

datatype error =
    EOF
  | ReadBufferOverrun
  | WriteBufferOverrun
  | UnsupportedZeroBitOperation
  | InsufficientBitCount
  | UnsupportedBitSpan uint64
  | CannotBeSet Kind
  | BitfieldExceedsFieldSize Kind uint64 uint64
  | UnsupportedReadType Kind
  | NonMultipleSize uint64 uint64
  | SliceSizeUndetermined
  | CannotLocateField string
  | NotSliceOrArray Kind
  | CannotDeductSliceLengthError
  | LeftOverBits
  | WillOverflow uint64 uint64
  | BitfieldOverflowsByte
  | CannotSpanMultiByte
  | OnlyByteMultiples
  | Panic panic

subsection \<open>Byte sources and sinks (\<open>buffer.go\<close>)\<close>

record Buffer =
  bytes :: "byte list"
  offset :: nat

definition WriteByte :: "Buffer \<Rightarrow> byte \<Rightarrow> error option \<times> Buffer" where
  "WriteByte buf b =
     (if offset buf \<ge> length (bytes buf) then (Some WriteBufferOverrun, buf)
      else (None, buf\<lparr>bytes := (bytes buf)[offset buf := b], offset := offset buf + 1\<rparr>))"

text \<open>
  The two readers of \<open>buffer.go\<close>: the package's own \<open>Buffer\<close>, whose \<open>ReadByte\<close> reports
  an overrun with an error of its own, and \<open>byteBufferReader\<close>, which hands on
  \<open>bytes.Buffer.ReadByte\<close> and so reports \<open>io.EOF\<close> when no byte is left.
\<close>

datatype ByteReader =
    BufferReader Buffer
  | byteBufferReader "byte list"

fun ReadByte :: "ByteReader \<Rightarrow> (error + byte) \<times> ByteReader" where
  "ReadByte (BufferReader buf) =
     (if offset buf \<ge> length (bytes buf) then (Inl ReadBufferOverrun, BufferReader buf)
      else (Inr (bytes buf ! offset buf), BufferReader (buf\<lparr>offset := offset buf + 1\<rparr>)))"
| "ReadByte (byteBufferReader []) = (Inl EOF, byteBufferReader [])"
| "ReadByte (byteBufferReader (b # bs)) = (Inr b, byteBufferReader bs)"

subsection \<open>The bit cursors\<close>

record bitcursor =
  currentByte :: byte
  byteOffset :: uint64
  bitOffset :: uint64

record decoder = bitcursor +
  reader :: ByteReader

record encoder = bitcursor +
  writer :: Buffer

subsubsection \<open>\<open>decoder.read\<close> (\<open>decoder.go\<close>)\<close>

text \<open>
  The loop of the whole-byte branch runs \<open>nbits / 8\<close> times, with \<open>i\<close> the shift of the
  byte read; a shift of 64 or more gives 0 in Go as with \<open>push_bit\<close> on a word.
\<close>

fun read_loop :: "ByteReader \<Rightarrow> nat \<Rightarrow> nat \<Rightarrow> uint64 \<Rightarrow> (error + uint64) \<times> ByteReader" where
  "read_loop r 0 i v = (Inr v, r)"
| "read_loop r (Suc k) i v =
     (case ReadByte r of
        (Inl err, r') \<Rightarrow> (Inl err, r')
      | (Inr b, r') \<Rightarrow> read_loop r' k (i + 8) (v OR push_bit i (ucast b)))"

text \<open>
  For \<open>nbits < 8\<close> the mask \<open>uint(math.Pow(2, float64(nbits)) - 1)\<close> is \<open>2 ^ nbits - 1\<close>
  exactly.
\<close>

definition read :: "decoder \<Rightarrow> uint64 \<Rightarrow> (error + uint64) \<times> decoder" where
  "read d nbits =
     (if nbits = 0 then (Inl UnsupportedZeroBitOperation, d)
      else if nbits < 8 then
        (case (if bitOffset d = 0 then
                 (case ReadByte (reader d) of
                    (Inl err, r') \<Rightarrow> Inl err
                  | (Inr b, r') \<Rightarrow> Inr (d\<lparr>currentByte := b, reader := r'\<rparr>))
               else Inr d) of
           Inl err \<Rightarrow> (Inl err, d)
         | Inr d1 \<Rightarrow>
             if nbits > 8 - bitOffset d1 then (Inl InsufficientBitCount, d1)
             else
               let mask = (2 ^ unat nbits - 1 :: uint64);
                   v = ucast (drop_bit (unat (bitOffset d1)) (currentByte d1)) AND mask;
                   d2 = d1\<lparr>bitOffset := bitOffset d1 + nbits\<rparr>
               in (Inr v, if bitOffset d2 \<ge> 8 then d2\<lparr>bitOffset := 0\<rparr> else d2))
      else if nbits mod 8 \<noteq> 0 then (Inl (UnsupportedBitSpan nbits), d)
      else
        (case read_loop (reader d) (unat nbits div 8) 0 0 of
           (res, r') \<Rightarrow> (res, d\<lparr>reader := r'\<rparr>)))"

subsubsection \<open>\<open>encoder.write\<close>, the version with \<open>align\<close> and endianness\<close>

definition writeByte :: "encoder \<Rightarrow> byte \<Rightarrow> error option \<times> encoder" where
  "writeByte e b =
     (case WriteByte (writer e) b of
        (Some err, w') \<Rightarrow> (Some err, e)
      | (None, w') \<Rightarrow> (None, e\<lparr>writer := w', byteOffset := byteOffset e + 1\<rparr>))"

text \<open>
  The second loop of \<open>write\<close>. The result of \<open>writeByte\<close> is dropped there, as in the
  source.
\<close>

function write_loop :: "encoder \<Rightarrow> uint64 \<Rightarrow> uint64 \<Rightarrow> error option \<times> encoder" where
  "write_loop e v nbits =
     (if nbits \<noteq> 0 then
        let e1 = e\<lparr>currentByte := ucast v\<rparr> in
        if nbits < 8 then (None, e1\<lparr>bitOffset := bitOffset e1 + nbits\<rparr>)
        else write_loop (snd (writeByte e1 (currentByte e1))) (drop_bit 8 v) (nbits - 8)
      else (None, e))"
  by pat_completeness auto
termination
proof (relation "measure (\<lambda>(e, v, nbits). unat nbits)")
  show "wf (measure (\<lambda>(e, v, nbits). unat nbits))" by simp
next
  fix e :: encoder and v nbits :: uint64 and x
  assume "nbits \<noteq> 0" and "\<not> nbits < 8"
  then have "8 \<le> nbits" by simp
  then have "unat (nbits - 8) = unat nbits - 8"
    by (simp add: unat_sub)
  moreover from \<open>8 \<le> nbits\<close> have "8 \<le> unat nbits"
    by (simp add: word_le_nat_alt)
  ultimately show "((snd (writeByte x (currentByte x)), drop_bit 8 v, nbits - 8), e, v, nbits)
      \<in> measure (\<lambda>(e, v, nbits). unat nbits)"
    by simp
qed

declare write_loop.simps [simp del]

text \<open>
  \<open>encoder.write\<close>. The first test compares a \<open>uint64\<close> with \<open>math.MaxUint64\<close>; it is
  written out as the source has it.
\<close>

definition encoder_write :: "encoder \<Rightarrow> uint64 \<Rightarrow> uint64 \<Rightarrow> error option \<times> encoder" where
  "encoder_write e v nbits =
     (if nbits > 1 \<and> v > (- 1) then (Some (WillOverflow v nbits), e)
      else if bitOffset e \<noteq> 0 then
        let e1 = e\<lparr>currentByte := currentByte e OR ucast (push_bit (unat (bitOffset e)) v)\<rparr>;
            remainingBits = 8 - bitOffset e1
        in if nbits < remainingBits then (None, e1\<lparr>bitOffset := bitOffset e1 + nbits\<rparr>)
           else
             let v' = drop_bit (unat remainingBits) v;
                 nbits' = nbits - remainingBits;
                 e2 = snd (writeByte e1 (currentByte e1));
                 e3 = e2\<lparr>currentByte := ucast v', bitOffset := 0\<rparr>
             in write_loop e3 v' nbits'
      else write_loop e v nbits)"

subsubsection \<open>\<open>encoder.write\<close> of \<open>encoder.go\<close>\<close>

text \<open>
  \<open>uint64(math.Pow(2, float64(nbits)))\<close> is \<open>2 ^ nbits\<close> for \<open>nbits < 64\<close>. From 64 on the
  power is no \<open>uint64\<close> and Go leaves the result of the conversion to the implementation;
  on amd64 it is \<open>0x8000000000000000\<close>, which is what the model takes.
\<close>

definition Pow2 :: "uint64 \<Rightarrow> uint64" where
  "Pow2 nbits = (if nbits < 64 then 2 ^ unat nbits else 0x8000000000000000)"

fun write_bytes :: "encoder \<Rightarrow> uint64 \<Rightarrow> nat \<Rightarrow> nat \<Rightarrow> error option \<times> encoder" where
  "write_bytes e v b 0 = (None, e)"
| "write_bytes e v b (Suc k) =
     (case writeByte e (ucast (drop_bit (b * 8) v)) of
        (Some err, e') \<Rightarrow> (Some err, e')
      | (None, e') \<Rightarrow> write_bytes e' v (b + 1) k)"

definition write_rest :: "encoder \<Rightarrow> uint64 \<Rightarrow> uint64 \<Rightarrow> error option \<times> encoder" where
  "write_rest e v nbits =
     (if nbits < 8 then
        let shift = bitOffset e in
        if shift + nbits > 8 then (Some BitfieldOverflowsByte, e)
        else
          let e1 = e\<lparr>currentByte := currentByte e OR ucast (push_bit (unat shift) v),
                     bitOffset := bitOffset e + nbits\<rparr>
          in if bitOffset e1 = 8
             then (None, (snd (writeByte e1 (currentByte e1)))\<lparr>bitOffset := 0, currentByte := 0\<rparr>)
             else (None, e1)
      else if bitOffset e \<noteq> 0 then (Some CannotSpanMultiByte, e)
      else if nbits mod 8 \<noteq> 0 then (Some OnlyByteMultiples, e)
      else write_bytes e v 0 (unat (nbits div 8)))"

definition encoder_write_go :: "encoder \<Rightarrow> uint64 \<Rightarrow> uint64 \<Rightarrow> error option \<times> encoder" where
  "encoder_write_go e v nbits =
     (if nbits > 1 \<and> v > Pow2 nbits - 1 then (Some (WillOverflow v nbits), e)
      else write_rest e v nbits)"

subsection \<open>Field descriptors (the tag parser)\<close>

datatype endian = little | big

record bitfield =
  nbits :: uint64
  reserved :: bool

datatype format = none | sizeOf | countOf

record layout =
  format :: format
  name :: string
  relative :: bool
  lvalue :: uint64

record tags =
  endian :: endian
  bitfield :: bitfield
  layout :: layout
  alignment :: uint64
  truncated :: bool

text \<open>
  The field \<open>truncate\<close> of \<open>tags\<close> is \<open>truncated\<close> here and \<open>layout.value\<close> is \<open>lvalue\<close>: the
  source's names are taken by the record package and by a command.
\<close>

subsubsection \<open>Library functions the parser calls\<close>

text \<open>
  Tags are taken to be valid UTF-8, so that ranging over the runes of a tag, as
  \<open>parseString\<close> does, builds the same keys and values as ranging over its bytes.

  \<open>keyIs key k\<close> is the test \<open>strings.ToLower(key) == k\<close> of the \<open>switch\<close> in \<open>tags.add\<close>,
  for a key \<open>k\<close> of lower-case ASCII letters. A character of \<open>key\<close> gives the letter \<open>c\<close>
  of \<open>k\<close> when it is \<open>c\<close> or its capital, and besides, by the case tables of Go's
  \<open>unicode\<close> package, when it is U+0130 (two bytes, lower case \<open>i\<close>) or U+212A (three
  bytes, lower case \<open>k\<close>); every other character has a lower case outside ASCII.
\<close>

fun keyIs :: "string \<Rightarrow> string \<Rightarrow> bool" where
  "keyIs [] [] = True"
| "keyIs (x # xs) [] = False"
| "keyIs [] (c # cs) = False"
| "keyIs (x # xs) (c # cs) =
     (if x = c \<or> (of_char x :: nat) + 32 = of_char c then keyIs xs cs
      else if c = CHR ''i'' \<and> take 2 (x # xs) = [CHR 0xC4, CHR 0xB0] then keyIs (drop 1 xs) cs
      else if c = CHR ''k'' \<and> take 3 (x # xs) = [CHR 0xE2, CHR 0x84, CHR 0xAA]
      then keyIs (drop 2 xs) cs
      else False)"

text \<open>\<open>strings.Split(s, ",")[0]\<close> and \<open>strings.Contains\<close>.\<close>

definition SplitFirst :: "string \<Rightarrow> string" where
  "SplitFirst s = takeWhile (\<lambda>c. c \<noteq> CHR '','') s"

fun Contains :: "string \<Rightarrow> string \<Rightarrow> bool" where
  "Contains [] sub = (sub = [])"
| "Contains (c # cs) sub = (take (length sub) (c # cs) = sub \<or> Contains cs sub)"

text \<open>
  \<open>strconv.ParseInt(s, 0, bitSize)\<close> of the Go library, after its source: an optional
  sign, a base prefix (\<open>0b\<close>, \<open>0o\<close>, \<open>0x\<close>, or a leading \<open>0\<close> for octal), digits with
  underscores between them, and the range of a signed integer of \<open>bitSize\<close> bits. Every
  error of \<open>ParseInt\<close> is \<open>None\<close>: its callers only test \<open>err != nil\<close>.
\<close>

definition lower :: "char \<Rightarrow> nat" where
  "lower c = (of_char c :: nat) OR 32"

definition digitVal :: "char \<Rightarrow> nat option" where
  "digitVal c =
     (if 48 \<le> (of_char c :: nat) \<and> (of_char c :: nat) \<le> 57 then Some (of_char c - 48)
      else if 97 \<le> lower c \<and> lower c \<le> 122 then Some (lower c - 97 + 10)
      else None)"

fun parseDigits :: "nat \<Rightarrow> string \<Rightarrow> int \<Rightarrow> int option" where
  "parseDigits base [] n = Some n"
| "parseDigits base (c # cs) n =
     (if c = CHR ''_'' then parseDigits base cs n
      else
        (case digitVal c of
           None \<Rightarrow> None
         | Some d \<Rightarrow>
             if d \<ge> base then None else parseDigits base cs (n * int base + int d)))"

datatype saw = SawStart | SawDigit | SawUnderscore | SawOther

fun underscoreLoop :: "bool \<Rightarrow> saw \<Rightarrow> string \<Rightarrow> bool" where
  "underscoreLoop hex s [] = (s \<noteq> SawUnderscore)"
| "underscoreLoop hex s (c # cs) =
     (if (48 \<le> (of_char c :: nat) \<and> (of_char c :: nat) \<le> 57)
         \<or> (hex \<and> 97 \<le> lower c \<and> lower c \<le> 102)
      then underscoreLoop hex SawDigit cs
      else if c = CHR ''_'' then
        (if s \<noteq> SawDigit then False else underscoreLoop hex SawUnderscore cs)
      else if s = SawUnderscore then False
      else underscoreLoop hex SawOther cs)"

definition underscoreOK :: "string \<Rightarrow> bool" where
  "underscoreOK s0 =
     (let s = (case s0 of c # cs \<Rightarrow> if c = CHR ''-'' \<or> c = CHR ''+'' then cs else s0 | [] \<Rightarrow> s0)
      in case s of
           c0 # c1 # cs \<Rightarrow>
             if c0 = CHR ''0'' \<and> (lower c1 = 98 \<or> lower c1 = 111 \<or> lower c1 = 120)
             then underscoreLoop (lower c1 = 120) SawDigit cs
             else underscoreLoop False SawStart s
         | _ \<Rightarrow> underscoreLoop False SawStart s)"

definition ParseUint :: "string \<Rightarrow> nat \<Rightarrow> int option" where
  "ParseUint s bitSize =
     (if s = [] then None
      else
        let (base, ds) =
              (if hd s = CHR ''0'' then
                 (if length s \<ge> 3 \<and> lower (s ! 1) = 98 then (2, drop 2 s)
                  else if length s \<ge> 3 \<and> lower (s ! 1) = 111 then (8, drop 2 s)
                  else if length s \<ge> 3 \<and> lower (s ! 1) = 120 then (16, drop 2 s)
                  else (8, drop 1 s))
               else (10, s))
        in case parseDigits base ds 0 of
             None \<Rightarrow> None
           | Some n \<Rightarrow>
               if CHR ''_'' \<in> set ds \<and> \<not> underscoreOK s then None
               else if n > 2 ^ bitSize - 1 then None
               else Some n)"

definition ParseInt :: "string \<Rightarrow> nat \<Rightarrow> int option" where
  "ParseInt s0 bitSize =
     (if s0 = [] then None
      else
        let neg = (hd s0 = CHR ''-'');
            s = (if hd s0 = CHR ''+'' \<or> hd s0 = CHR ''-'' then tl s0 else s0)
        in case ParseUint s bitSize of
             None \<Rightarrow> None
           | Some un \<Rightarrow>
               if \<not> neg \<and> un \<ge> 2 ^ (bitSize - 1) then None
               else if neg \<and> un > 2 ^ (bitSize - 1) then None
               else Some (if neg then - un else un))"

subsubsection \<open>\<open>tags.add\<close>, \<open>tags.parseString\<close>, \<open>parseFieldTags\<close>\<close>

text \<open>
  A parse failure panics with a \<open>TaggingError\<close> that holds the raw tag and the kind of
  the field. \<open>sf.Type.Bits()\<close> is evaluated before \<open>ParseInt\<close> is called and panics for a
  kind without a bit size.
\<close>

definition add :: "StructField \<Rightarrow> string \<Rightarrow> string \<Rightarrow> tags \<Rightarrow> error + tags" where
  "add sf key v t =
     (if keyIs key ''little'' then Inr (t\<lparr>endian := little\<rparr>)
      else if keyIs key ''big'' then Inr (t\<lparr>endian := big\<rparr>)
      else if keyIs key ''bitfield'' then
        (let nbs = SplitFirst v in
         case (if length nbs \<noteq> 0 then
                 (case Bits (KindOf (Typ sf)) of
                    None \<Rightarrow> Inl (Panic (BitsOfNonArithmetic (KindOf (Typ sf))))
                  | Some bitSize \<Rightarrow>
                      (case ParseInt nbs bitSize of
                         None \<Rightarrow> Inl (Panic (TaggingError (Tag sf) (KindOf (Typ sf))))
                       | Some n \<Rightarrow> Inr (t\<lparr>bitfield := (bitfield t)\<lparr>nbits := of_int n\<rparr>\<rparr>)))
               else Inr t) of
           Inl err \<Rightarrow> Inl err
         | Inr t1 \<Rightarrow> Inr (t1\<lparr>bitfield := (bitfield t1)\<lparr>reserved := Contains v ''reserved''\<rparr>\<rparr>))
      else if keyIs key ''sizeof'' then
        Inr (t\<lparr>layout := (layout t)\<lparr>format := sizeOf, name := SplitFirst v,
                                     relative := Contains v ''relative''\<rparr>\<rparr>)
      else if keyIs key ''countof'' then
        Inr (t\<lparr>layout := (layout t)\<lparr>format := countOf, name := v\<rparr>\<rparr>)
      else if keyIs key ''truncate'' then Inr (t\<lparr>truncated := True\<rparr>)
      else if keyIs key ''align'' then
        (case ParseInt v 64 of
           None \<Rightarrow> Inl (Panic (TaggingError (Tag sf) (KindOf (Typ sf))))
         | Some n \<Rightarrow> Inr (t\<lparr>alignment := of_int n\<rparr>))
      else Inr t)"

record parseOptions =
  sep :: char
  quote :: char
  assign :: char

text \<open>
  The loop of \<open>parseString\<close> over the characters of the tag; \<open>idx == len(runes)-1\<close> is
  \<open>rs = []\<close>. The state is \<open>(key, val, inKey, inVal)\<close>.
\<close>

fun parseString_loop ::
  "StructField \<Rightarrow> parseOptions \<Rightarrow> string \<Rightarrow> string \<times> string \<times> bool \<times> bool \<Rightarrow> tags
     \<Rightarrow> error + tags" where
  "parseString_loop sf opts [] st t = Inr t"
| "parseString_loop sf opts (r # rs) (key, v, inKey, inVal) t =
     (if r = assign opts then parseString_loop sf opts rs (key, v, False, inVal) t
      else if r = quote opts then
        (if inVal then
           (case add sf key v t of
              Inl err \<Rightarrow> Inl err
            | Inr t' \<Rightarrow> parseString_loop sf opts rs ([], [], inKey, False) t')
         else parseString_loop sf opts rs (key, v, inKey, True) t)
      else if r = sep opts \<or> r = CHR '','' then
        (if \<not> inVal then parseString_loop sf opts rs (key, v, True, inVal) t
         else parseString_loop sf opts rs (key, v @ [r], inKey, inVal) t)
      else if inKey then
        (if rs = [] then
           (case add sf (key @ [r]) v t of
              Inl err \<Rightarrow> Inl err
            | Inr t' \<Rightarrow> parseString_loop sf opts rs ([], [], inKey, inVal) t')
         else parseString_loop sf opts rs (key @ [r], v, inKey, inVal) t)
      else if inVal then parseString_loop sf opts rs (key, v @ [r], inKey, inVal) t
      else parseString_loop sf opts rs (key, v, inKey, inVal) t)"

definition parseString :: "tags \<Rightarrow> StructField \<Rightarrow> string \<Rightarrow> parseOptions \<Rightarrow> error + tags" where
  "parseString t sf tagString opts =
     (if length tagString = 0 then Inr t
      else parseString_loop sf opts tagString ([], [], True, False) t)"

definition parseFieldTags :: "StructField \<Rightarrow> error + tags" where
  "parseFieldTags sf =
     (let t = \<lparr>endian = little,
               bitfield = \<lparr>nbits = 0, reserved = False\<rparr>,
               layout = \<lparr>format = none, name = [], relative = False, lvalue = 0\<rparr>,
               alignment = 0,
               truncated = False\<rparr>
      in case (case Typ sf of
                 ArrayOf n et \<Rightarrow> Inr t
               | SliceOf et \<Rightarrow> Inr t
               | StructOf fs \<Rightarrow> Inr t
               | Basic k \<Rightarrow>
                   if k = Bool then Inr (t\<lparr>bitfield := (bitfield t)\<lparr>nbits := 1\<rparr>\<rparr>)
                   else
                     (case Bits k of
                        None \<Rightarrow> Inl (Panic (BitsOfNonArithmetic k))
                      | Some n \<Rightarrow> Inr (t\<lparr>bitfield := (bitfield t)\<lparr>nbits := of_nat n\<rparr>\<rparr>))) of
           Inl err \<Rightarrow> Inl err
         | Inr t1 \<Rightarrow>
             (case Structex sf of
                Some s \<Rightarrow>
                  parseString t1 sf s \<lparr>sep = CHR '','', quote = CHR 0x27, assign = CHR ''=''\<rparr>
              | None \<Rightarrow>
                  parseString t1 sf (Tag sf)
                    \<lparr>sep = CHR '' '', quote = CHR 0x22, assign = CHR '':''\<rparr>))"

subsection \<open>Reading and storing scalar values\<close>

text \<open>
  What \<open>reflect\<close> lets the decoder do with a value: \<open>CanSet\<close> holds for a value that is
  addressable and was not reached through an unexported field. A field inherits both
  flags of its structure and is read-only when it is unexported; an element of an array
  inherits both; an element of a slice is addressable and inherits the read-only flag.
\<close>

record flag =
  addressable :: bool
  readOnly :: bool

definition CanSet :: "flag \<Rightarrow> bool" where
  "CanSet fl = (addressable fl \<and> \<not> readOnly fl)"

definition fieldFlag :: "flag \<Rightarrow> bool \<Rightarrow> flag" where
  "fieldFlag fl exported = fl\<lparr>readOnly := readOnly fl \<or> \<not> exported\<rparr>"

definition sliceElemFlag :: "flag \<Rightarrow> flag" where
  "sliceElemFlag fl = fl\<lparr>addressable := True\<rparr>"

text \<open>The zero value of a type (\<open>reflect.MakeSlice\<close> fills a new slice with it).\<close>

fun Zero :: "Type \<Rightarrow> Value" and ZeroFields :: "StructField list \<Rightarrow> Value list" where
  "Zero (Basic k) = Scalar 0"
| "Zero (ArrayOf n t) = Elems (replicate n (Zero t))"
| "Zero (SliceOf t) = Elems []"
| "Zero (StructOf fs) = Fields (ZeroFields fs)"
| "ZeroFields [] = []"
| "ZeroFields (StructField nm t tg sx ex # fs) = Zero t # ZeroFields fs"

text \<open>
  \<open>getValue\<close> (with the transcoder): the number held by a value of an integer kind; a
  panic for any other kind.
\<close>

definition getValue :: "Type \<Rightarrow> Value \<Rightarrow> error + uint64" where
  "getValue ty v =
     (if KindOf ty \<in> {Uint, Uint8, Uint16, Uint32, Uint64, IntK, Int8, Int16, Int32, Int64}
      then (case v of Scalar x \<Rightarrow> Inr x | _ \<Rightarrow> Inl (Panic IllTyped))
      else Inl (Panic (FieldTypeUnsupported (KindOf ty))))"

text \<open>
  The \<open>switch\<close> at the end of \<open>readValue\<close>: \<open>SetBool(v == 1)\<close>, \<open>SetUint(v)\<close> and
  \<open>SetInt(int64(v))\<close> store the number cut to the width of the kind; \<open>None\<close> is the branch
  "Unsupported read type".
\<close>

fun setValue :: "Kind \<Rightarrow> uint64 \<Rightarrow> Value option" where
  "setValue Bool v = Some (Scalar (if v = 1 then 1 else 0))"
| "setValue Uint8 v = Some (Scalar (take_bit 8 v))"
| "setValue Uint16 v = Some (Scalar (take_bit 16 v))"
| "setValue Uint32 v = Some (Scalar (take_bit 32 v))"
| "setValue Uint64 v = Some (Scalar v)"
| "setValue Uint v = Some (Scalar v)"
| "setValue Int8 v = Some (Scalar (signed_take_bit 7 v))"
| "setValue Int16 v = Some (Scalar (signed_take_bit 15 v))"
| "setValue Int32 v = Some (Scalar (signed_take_bit 31 v))"
| "setValue Int64 v = Some (Scalar v)"
| "setValue IntK v = Some (Scalar v)"
| "setValue Uintptr v = None"
| "setValue Array v = None"
| "setValue Slice v = None"
| "setValue Struct v = None"

text \<open>
  \<open>decoder.readValue\<close>. The result is the number read together with the value stored;
  on an error the target is left as it was.
\<close>

definition readValue ::
  "decoder \<Rightarrow> flag \<Rightarrow> Type \<Rightarrow> tags option \<Rightarrow> (error + uint64 \<times> Value) \<times> decoder" where
  "readValue d fl ty tgs =
     (if \<not> CanSet fl then (Inl (CannotBeSet (KindOf ty)), d)
      else
        case (if KindOf ty = Bool then Inr 1
              else (case Bits (KindOf ty) of
                      None \<Rightarrow> Inl (Panic (BitsOfNonArithmetic (KindOf ty)))
                    | Some n \<Rightarrow> Inr (of_nat n))) of
          Inl err \<Rightarrow> (Inl err, d)
        | Inr fieldBits \<Rightarrow>
            (case (case tgs of
                     None \<Rightarrow> Inr fieldBits
                   | Some t \<Rightarrow>
                       if fieldBits < nbits (bitfield t)
                       then Inl (BitfieldExceedsFieldSize (KindOf ty) (nbits (bitfield t))
                                   fieldBits)
                       else Inr (nbits (bitfield t))) of
               Inl err \<Rightarrow> (Inl err, d)
             | Inr n \<Rightarrow>
                 (case read d n of
                    (Inl err, d') \<Rightarrow> (Inl err, d')
                  | (Inr v, d') \<Rightarrow>
                      (case setValue (KindOf ty) v of
                         None \<Rightarrow> (Inl (UnsupportedReadType (KindOf ty)), d')
                       | Some x \<Rightarrow> (Inr (v, x), d')))))"

subsection \<open>Sizes of types (\<open>typeSize\<close>, \<open>structTypeSize\<close>)\<close>

text \<open>
  \<open>structTypeSize_loop\<close> is the loop over the fields with the running \<open>bytes\<close> and
  \<open>bits\<close>; the inner loop \<open>for ; bits >= 8; bits -= 8 { bytes++ }\<close> is written as a
  division.
\<close>

fun typeSize :: "Type \<Rightarrow> error + uint64"
and structTypeSize_loop :: "StructField list \<Rightarrow> uint64 \<Rightarrow> uint64 \<Rightarrow> error + uint64" where
  "typeSize (StructOf fs) = structTypeSize_loop fs 0 0"
| "typeSize (ArrayOf n t) = typeSize t"
| "typeSize (SliceOf t) = Inl CannotDeductSliceLengthError"
| "typeSize (Basic k) = Inr (SizeOfKind k)"
| "structTypeSize_loop [] nbytes nb =
     (if nb \<noteq> 0 then Inl CannotDeductSliceLengthError else Inr nbytes)"
| "structTypeSize_loop (StructField nm ty tg sx ex # fs) nbytes nb =
     (case (case ty of
              ArrayOf n et \<Rightarrow>
                (case typeSize (ArrayOf n et) of
                   Inl err \<Rightarrow> Inl err
                 | Inr sz \<Rightarrow> Inr (nb + sz * 8 * of_nat n))
            | SliceOf et \<Rightarrow> Inl CannotDeductSliceLengthError
            | _ \<Rightarrow>
                (case parseFieldTags (StructField nm ty tg sx ex) of
                   Inl err \<Rightarrow> Inl err
                 | Inr t \<Rightarrow> Inr (nb + nbits (bitfield t)))) of
        Inl err \<Rightarrow> Inl err
      | Inr nb' \<Rightarrow> structTypeSize_loop fs (nbytes + nb' div 8) (nb' mod 8))"

subsection \<open>The transcoder (\<open>transcoder\<close>, \<open>stack\<close>, \<open>fieldByName\<close>)\<close>

text \<open>
  A \<open>tagReference\<close> holds the field tagged \<open>sizeOf\<close> or \<open>countOf\<close> (its type and its value,
  as \<open>rtype\<close> and \<open>rvalue\<close>) and its descriptor (\<open>rtags\<close>).

  The values on the stack are structures being walked. \<open>reflect\<close> hands them around by
  reference; the model pushes the structure as it is when the walk enters it. A
  handler only asks a field found there for its kind, its length and its first element,
  and the decoder, the one handler that changes values, asks for the kind only.
\<close>

record tagReference =
  rtype :: Type
  rvalue :: Value
  rtags :: tags

record stack =
  len :: nat
  vals :: "(Type \<times> Value) list"

record transcoder =
  fieldMap :: "string \<rightharpoonup> tagReference"
  backtrace :: stack

definition newTranscoder :: transcoder where
  "newTranscoder = \<lparr>fieldMap = Map.empty, backtrace = \<lparr>len = 0, vals = []\<rparr>\<rparr>"

text \<open>
  \<open>pop\<close> lowers \<open>len\<close> and leaves \<open>vals\<close> as it is; the next \<open>push\<close> appends and sets
  \<open>len\<close> to the new length of \<open>vals\<close>.
\<close>

definition push :: "transcoder \<Rightarrow> Type \<times> Value \<Rightarrow> transcoder" where
  "push t v =
     t\<lparr>backtrace := \<lparr>len = length (vals (backtrace t) @ [v]), vals = vals (backtrace t) @ [v]\<rparr>\<rparr>"

definition pop :: "transcoder \<Rightarrow> transcoder" where
  "pop t = t\<lparr>backtrace := (backtrace t)\<lparr>len := len (backtrace t) - 1\<rparr>\<rparr>"

fun FieldByName_loop :: "StructField list \<Rightarrow> Value list \<Rightarrow> string \<Rightarrow> (Type \<times> Value) option" where
  "FieldByName_loop (f # fs) (v # vs) nm =
     (if Name f = nm then Some (Typ f, v) else FieldByName_loop fs vs nm)"
| "FieldByName_loop fs vs nm = None"

fun FieldByName :: "Type \<times> Value \<Rightarrow> string \<Rightarrow> (Type \<times> Value) option" where
  "FieldByName (StructOf fs, Fields vs) nm = FieldByName_loop fs vs nm"
| "FieldByName (ty, v) nm = None"

text \<open>
  \<open>transcoder.fieldByName\<close>: from the entry \<open>len - 1\<close> of \<open>vals\<close> down to the first one.
  \<open>None\<close> is the value the source returns when no entry has the field.
\<close>

fun fieldByName_loop :: "(Type \<times> Value) list \<Rightarrow> nat \<Rightarrow> string \<Rightarrow> error + (Type \<times> Value) option" where
  "fieldByName_loop vs 0 nm = Inr None"
| "fieldByName_loop vs (Suc i) nm =
     (if i \<ge> length vs then Inl (Panic IndexOutOfRange)
      else (case FieldByName (vs ! i) nm of
              Some found \<Rightarrow> Inr (Some found)
            | None \<Rightarrow> fieldByName_loop vs i nm))"

definition fieldByName :: "transcoder \<Rightarrow> string \<Rightarrow> error + (Type \<times> Value) option" where
  "fieldByName t nm = fieldByName_loop (vals (backtrace t)) (len (backtrace t)) nm"

text \<open>
  The two tests \<open>transcode\<close> makes on the field a layout tag names, before it calls the
  handler.
\<close>

definition findLayoutTarget :: "transcoder \<Rightarrow> tags \<Rightarrow> error + (Type \<times> Value)" where
  "findLayoutTarget t tgs =
     (case fieldByName t (name (layout tgs)) of
        Inl err \<Rightarrow> Inl err
      | Inr None \<Rightarrow> Inl (CannotLocateField (name (layout tgs)))
      | Inr (Some (fty, fv)) \<Rightarrow>
          if KindOf fty \<noteq> Slice \<and> KindOf fty \<noteq> Array then Inl (NotSliceOrArray (KindOf fty))
          else Inr (fty, fv))"

subsection \<open>The decoder (\<open>decoder.go\<close>) under \<open>transcode\<close>\<close>

text \<open>
  The result of a step of the walk: the error, the target as the step leaves it, the
  transcoder and the decoder. \<open>illTyped\<close> answers a value that does not have the shape
  of its type, which no Go value does.
\<close>

type_synonym 'a decoded = "error option \<times> 'a \<times> transcoder \<times> decoder"

definition illTyped :: "'a \<Rightarrow> transcoder \<Rightarrow> decoder \<Rightarrow> 'a decoded" where
  "illTyped v t d = (Some (Panic IllTyped), v, t, d)"

text \<open>
  \<open>decoder.field\<close> is \<open>readValue\<close> without the number read.
\<close>

definition decoder_field ::
  "transcoder \<Rightarrow> decoder \<Rightarrow> flag \<Rightarrow> Type \<Rightarrow> Value \<Rightarrow> tags option \<Rightarrow> Value decoded" where
  "decoder_field t d fl ty v tgs =
     (case readValue d fl ty tgs of
        (Inl err, d') \<Rightarrow> (Some err, v, t, d')
      | (Inr (x, v'), d') \<Rightarrow> (None, v', t, d'))"

text \<open>
  A scalar field with a layout tag: the tests of \<open>transcode\<close>, then \<open>decoder.layout\<close>,
  which reads the field and keeps the number read in \<open>layout.value\<close> of the descriptor,
  then the entry in \<open>fieldMap\<close>.
\<close>

definition decoder_layout_field ::
  "transcoder \<Rightarrow> decoder \<Rightarrow> flag \<Rightarrow> Type \<Rightarrow> Value \<Rightarrow> tags \<Rightarrow> Value decoded" where
  "decoder_layout_field t d fl ty v tgs =
     (case findLayoutTarget t tgs of
        Inl err \<Rightarrow> (Some err, v, t, d)
      | Inr found \<Rightarrow>
          (case readValue d fl ty (Some tgs) of
             (Inl err, d') \<Rightarrow> (Some err, v, t, d')
           | (Inr (x, v'), d') \<Rightarrow>
               (None, v',
                t\<lparr>fieldMap := (fieldMap t)(name (layout tgs) \<mapsto>
                     \<lparr>rtype = ty, rvalue = v',
                      rtags = tgs\<lparr>layout := (layout tgs)\<lparr>lvalue := x\<rparr>\<rparr>\<rparr>)\<rparr>,
                d')))"

text \<open>
  The first half of \<open>decoder.slice\<close>: the length a reference gives, and the new slice of
  zero values put in place of the old one (\<open>arr.Set\<close> panics on a value that cannot be
  set, \<open>MakeSlice\<close> on a negative length). Without a reference the slice stays.
\<close>

definition decoder_slice_resize ::
  "flag \<Rightarrow> Type \<Rightarrow> Value list \<Rightarrow> tagReference option \<Rightarrow> error + Value list" where
  "decoder_slice_resize fl et es ref =
     (case ref of
        None \<Rightarrow> Inr es
      | Some r \<Rightarrow>
          (case (case format (layout (rtags r)) of
                   sizeOf \<Rightarrow>
                     (case typeSize et of
                        Inl err \<Rightarrow> Inl err
                      | Inr sz \<Rightarrow>
                          if sz = 0 then Inl (Panic DivideByZero)
                          else if lvalue (layout (rtags r)) mod sz \<noteq> 0
                          then Inl (NonMultipleSize (lvalue (layout (rtags r))) sz)
                          else Inr (lvalue (layout (rtags r)) div sz))
                 | countOf \<Rightarrow> Inr (lvalue (layout (rtags r)))
                 | none \<Rightarrow> Inl SliceSizeUndetermined) of
             Inl err \<Rightarrow> Inl err
           | Inr n \<Rightarrow>
               if n \<ge> 2 ^ 63 then Inl (Panic NegativeLen)
               else if \<not> CanSet fl then Inl (Panic SetOfUnsettable)
               else Inr (replicate (unat n) (Zero et))))"

text \<open>
  \<open>transcode\<close> with the decoder as its handler. \<open>dec_fields\<close> is the loop over the fields
  of a structure and \<open>dec_field\<close> its body; \<open>dec_array\<close> and \<open>dec_slice\<close> are the loops of
  \<open>decoder.array\<close> and \<open>decoder.slice\<close> over the elements.
\<close>

fun dec_transcode :: "transcoder \<Rightarrow> decoder \<Rightarrow> flag \<Rightarrow> Type \<Rightarrow> Value \<Rightarrow> Value decoded"
and dec_fields ::
  "transcoder \<Rightarrow> decoder \<Rightarrow> flag \<Rightarrow> StructField list \<Rightarrow> Value list \<Rightarrow> Value list decoded"
and dec_field :: "transcoder \<Rightarrow> decoder \<Rightarrow> flag \<Rightarrow> StructField \<Rightarrow> Value \<Rightarrow> Value decoded"
and dec_array ::
  "transcoder \<Rightarrow> decoder \<Rightarrow> flag \<Rightarrow> Type \<Rightarrow> tags \<Rightarrow> Value list \<Rightarrow> Value list decoded"
and dec_slice ::
  "transcoder \<Rightarrow> decoder \<Rightarrow> flag \<Rightarrow> Type \<Rightarrow> tags \<Rightarrow> Value list \<Rightarrow> Value list decoded"
where
  "dec_transcode t d fl (StructOf fs) v =
     (case v of
        Fields vs \<Rightarrow>
          (case dec_fields (push t (StructOf fs, v)) d fl fs vs of
             (err, vs', t', d') \<Rightarrow> (err, Fields vs', pop t', d'))
      | _ \<Rightarrow> illTyped v t d)"
| "dec_transcode t d fl (Basic k) v = decoder_field t d fl (Basic k) v None"
| "dec_transcode t d fl (ArrayOf n et) v = decoder_field t d fl (ArrayOf n et) v None"
| "dec_transcode t d fl (SliceOf et) v = decoder_field t d fl (SliceOf et) v None"
| "dec_fields t d fl [] vs = (None, vs, t, d)"
| "dec_fields t d fl (f # fs) [] = illTyped [] t d"
| "dec_fields t d fl (f # fs) (v # vs) =
     (case dec_field t d fl f v of
        (Some err, v', t', d') \<Rightarrow> (Some err, v' # vs, t', d')
      | (None, v', t', d') \<Rightarrow>
          (case dec_fields t' d' fl fs vs of
             (err, vs', t'', d'') \<Rightarrow> (err, v' # vs', t'', d'')))"
| "dec_field t d fl (StructField nm ty tg sx ex) v =
     (case parseFieldTags (StructField nm ty tg sx ex) of
        Inl err \<Rightarrow> (Some err, v, t, d)
      | Inr tgs \<Rightarrow>
          (case ty of
             StructOf fs \<Rightarrow> dec_transcode t d (fieldFlag fl ex) ty v
           | ArrayOf n et \<Rightarrow>
               (case v of
                  Elems es \<Rightarrow>
                    (case dec_array t d (fieldFlag fl ex) et tgs es of
                       (err, es', t', d') \<Rightarrow> (err, Elems es', t', d'))
                | _ \<Rightarrow> illTyped v t d)
           | SliceOf et \<Rightarrow>
               (case v of
                  Elems es \<Rightarrow>
                    (case decoder_slice_resize (fieldFlag fl ex) et es (fieldMap t nm) of
                       Inl err \<Rightarrow> (Some err, v, t, d)
                     | Inr es0 \<Rightarrow>
                         (case dec_slice t d (sliceElemFlag (fieldFlag fl ex)) et tgs es0 of
                            (err, es', t', d') \<Rightarrow> (err, Elems es', t', d')))
                | _ \<Rightarrow> illTyped v t d)
           | Basic k \<Rightarrow>
               if format (layout tgs) \<noteq> none
               then decoder_layout_field t d (fieldFlag fl ex) ty v tgs
               else decoder_field t d (fieldFlag fl ex) ty v (Some tgs)))"
| "dec_array t d fl et tgs [] = (None, [], t, d)"
| "dec_array t d fl et tgs (x # xs) =
     (if KindOf et = Struct then
        (case dec_transcode t d fl et x of
           (Some err, x', t', d') \<Rightarrow> (Some err, x' # xs, t', d')
         | (None, x', t', d') \<Rightarrow>
             (case dec_array t' d' fl et tgs xs of
                (err, xs', t'', d'') \<Rightarrow> (err, x' # xs', t'', d'')))
      else
        (case readValue d fl et None of
           (Inl err, d') \<Rightarrow>
             if err = EOF \<and> truncated tgs then (None, x # xs, t, d')
             else (Some err, x # xs, t, d')
         | (Inr (n, x'), d') \<Rightarrow>
             (case dec_array t d' fl et tgs xs of
                (err, xs', t'', d'') \<Rightarrow> (err, x' # xs', t'', d''))))"
| "dec_slice t d fl et tgs [] = (None, [], t, d)"
| "dec_slice t d fl et tgs (x # xs) =
     (case dec_transcode t d fl et x of
        (Some err, x', t', d') \<Rightarrow>
          if err = EOF \<and> truncated tgs then (None, x' # xs, t', d')
          else (Some err, x' # xs, t', d')
      | (None, x', t', d') \<Rightarrow>
          (case dec_slice t' d' fl et tgs xs of
             (err, xs', t'', d'') \<Rightarrow> (err, x' # xs', t'', d'')))"

text \<open>
  \<open>Decode\<close>. The target is a structure handed over by pointer (\<open>byPointer\<close>, the usual
  call) or by value; \<open>transcode\<close> follows the pointer, and what it reaches is addressable.
\<close>

definition Decode :: "ByteReader \<Rightarrow> bool \<Rightarrow> Type \<Rightarrow> Value \<Rightarrow> error option \<times> Value" where
  "Decode r byPointer ty v =
     (case dec_transcode newTranscoder
             \<lparr>currentByte = 0, byteOffset = 0, bitOffset = 0, reader = r\<rparr>
             \<lparr>addressable = byPointer, readOnly = False\<rparr> ty v of
        (err, v', t', d') \<Rightarrow> (err, v'))"

subsection \<open>The sizer under \<open>transcode\<close>\<close>

record sizer =
  ssize :: uint64
  snbits :: uint64
  snbytes :: uint64

definition newSizer :: sizer where
  "newSizer = \<lparr>ssize = 0, snbits = 0, snbytes = 0\<rparr>"

definition addBits :: "sizer \<Rightarrow> uint64 \<Rightarrow> sizer" where
  "addBits s n =
     (let s1 = s\<lparr>snbits := snbits s + n\<rparr>;
          s2 = s1\<lparr>snbytes := snbytes s1 + snbits s1 div 8\<rparr>
      in s2\<lparr>snbits := snbits s2 mod 8\<rparr>)"

type_synonym sized = "error option \<times> transcoder \<times> sizer"

definition sizer_field :: "transcoder \<Rightarrow> sizer \<Rightarrow> Type \<Rightarrow> tags option \<Rightarrow> sized" where
  "sizer_field t s ty tgs =
     (case tgs of
        None \<Rightarrow>
          (case Bits (KindOf ty) of
             None \<Rightarrow> (Some (Panic (BitsOfNonArithmetic (KindOf ty))), t, s)
           | Some n \<Rightarrow> (None, t, addBits s (of_nat n)))
      | Some tg \<Rightarrow> (None, t, addBits s (nbits (bitfield tg))))"

text \<open>
  The end of \<open>size\<close>, after its own \<open>transcode\<close> has returned.
\<close>

definition size_finish :: "sized \<Rightarrow> error + uint64" where
  "size_finish r =
     (case r of
        (Some err, t, s) \<Rightarrow> Inl err
      | (None, t, s) \<Rightarrow> if snbits s \<noteq> 0 then Inl LeftOverBits else Inr (snbytes s))"

text \<open>
  \<open>Value.IsZero\<close> of the field a reference holds, and \<open>Value.Uint\<close>, which panics for a
  kind that is no unsigned integer.
\<close>

definition IsZero :: "Value \<Rightarrow> bool" where
  "IsZero v = (v = Scalar 0)"

definition ValueUint :: "Type \<Rightarrow> Value \<Rightarrow> error + uint64" where
  "ValueUint ty v =
     (if KindOf ty \<in> {Uint, Uint8, Uint16, Uint32, Uint64, Uintptr}
      then (case v of Scalar x \<Rightarrow> Inr x | _ \<Rightarrow> Inl (Panic IllTyped))
      else Inl (Panic (UintOfNonUint (KindOf ty))))"

text \<open>The element type of an array or a slice, and \<open>val.Index(0)\<close>.\<close>

fun Elem :: "Type \<Rightarrow> Type" where
  "Elem (ArrayOf n et) = et"
| "Elem (SliceOf et) = et"
| "Elem ty = ty"

definition Index0 :: "Value \<Rightarrow> error + Value" where
  "Index0 v = (case v of Elems (x # xs) \<Rightarrow> Inr x | Elems [] \<Rightarrow> Inl (Panic IndexOutOfRange)
               | _ \<Rightarrow> Inl (Panic IllTyped))"

definition Len :: "Value \<Rightarrow> uint64" where
  "Len v = (case v of Elems xs \<Rightarrow> of_nat (length xs) | _ \<Rightarrow> 0)"

text \<open>
  The value a layout field stands for, as \<open>sizer.layout\<close> and \<open>encoder.layout\<close> both
  compute it from the field found (\<open>found\<close>), the reference, the size \<open>sz\<close> of the first
  element of \<open>found\<close> where it is asked for, and the count of bytes so far.
\<close>

definition layoutValue ::
  "Value \<Rightarrow> tagReference \<Rightarrow> uint64 \<Rightarrow> uint64 \<Rightarrow> uint64" where
  "layoutValue found ref sz sofar =
     (case format (layout (rtags ref)) of
        sizeOf \<Rightarrow>
          (let v = Len found * sz in
           if relative (layout (rtags ref)) then v - sofar else v)
      | countOf \<Rightarrow> Len found
      | none \<Rightarrow> 0)"

text \<open>
  The length \<open>sizer.array\<close> and \<open>encoder.array\<close> take for an array or a slice: its own,
  or the number held by the field that refers to it when that is not zero.
\<close>

definition refLength :: "Value \<Rightarrow> tagReference option \<Rightarrow> error + uint64" where
  "refLength arr ref =
     (case ref of
        None \<Rightarrow> Inr (Len arr)
      | Some r \<Rightarrow> if IsZero (rvalue r) then Inr (Len arr) else ValueUint (rtype r) (rvalue r))"

text \<open>
  \<open>transcode\<close> with the sizer as its handler. \<open>size\<close> starts a walk of its own, with a
  new transcoder and a new sizer, on the first element of an array or a slice; the first
  argument of the functions bounds how deep such walks may nest, which makes the
  recursion well-founded. \<open>size\<close> below starts with the nesting depth of the type, and a
  walk inside a walk is on a component of the type.
\<close>

fun sz_transcode :: "nat \<Rightarrow> transcoder \<Rightarrow> sizer \<Rightarrow> Type \<Rightarrow> Value \<Rightarrow> sized"
and sz_fields :: "nat \<Rightarrow> transcoder \<Rightarrow> sizer \<Rightarrow> StructField list \<Rightarrow> Value list \<Rightarrow> sized"
and sz_field :: "nat \<Rightarrow> transcoder \<Rightarrow> sizer \<Rightarrow> StructField \<Rightarrow> Value \<Rightarrow> sized"
where
  "sz_transcode k t s (StructOf fs) v =
     (case v of
        Fields vs \<Rightarrow>
          (case sz_fields k (push t (StructOf fs, v)) s fs vs of
             (err, t', s') \<Rightarrow> (err, pop t', s'))
      | _ \<Rightarrow> (Some (Panic IllTyped), t, s))"
| "sz_transcode k t s (Basic kd) v = sizer_field t s (Basic kd) None"
| "sz_transcode k t s (ArrayOf n et) v = sizer_field t s (ArrayOf n et) None"
| "sz_transcode k t s (SliceOf et) v = sizer_field t s (SliceOf et) None"
| "sz_fields k t s [] vs = (None, t, s)"
| "sz_fields k t s (f # fs) [] = (Some (Panic IllTyped), t, s)"
| "sz_fields k t s (f # fs) (v # vs) =
     (case sz_field k t s f v of
        (Some err, t', s') \<Rightarrow> (Some err, t', s')
      | (None, t', s') \<Rightarrow> sz_fields k t' s' fs vs)"
| "sz_field k t s (StructField nm ty tg sx ex) v =
     (case parseFieldTags (StructField nm ty tg sx ex) of
        Inl err \<Rightarrow> (Some err, t, s)
      | Inr tgs \<Rightarrow>
          (case ty of
             StructOf fs \<Rightarrow> sz_transcode k t s ty v
           | Basic kd \<Rightarrow>
               if format (layout tgs) \<noteq> none then
                 (case findLayoutTarget t tgs of
                    Inl err \<Rightarrow> (Some err, t, s)
                  | Inr (fty, fv) \<Rightarrow>
                      (let ref = \<lparr>rtype = ty, rvalue = v, rtags = tgs\<rparr> in
                       case (if IsZero v then
                               (if format (layout tgs) = sizeOf then
                                  (case Index0 fv of
                                     Inl err \<Rightarrow> Inl err
                                   | Inr x \<Rightarrow>
                                       (case k of
                                          0 \<Rightarrow> Inl (Panic OutOfFuel)
                                        | Suc k' \<Rightarrow>
                                            (case size_finish
                                                    (sz_transcode k' newTranscoder newSizer
                                                       (Elem fty) x) of
                                               Inl err \<Rightarrow> Inl err
                                             | Inr sz \<Rightarrow>
                                                 Inr (layoutValue fv ref sz (snbytes s)))))
                                else Inr (layoutValue fv ref 0 (snbytes s)))
                             else getValue ty v) of
                         Inl err \<Rightarrow> (Some err, t, s)
                       | Inr x \<Rightarrow>
                           (None,
                            t\<lparr>fieldMap := (fieldMap t)(name (layout tgs) \<mapsto>
                                 ref\<lparr>rtags := tgs\<lparr>layout := (layout tgs)\<lparr>lvalue := x\<rparr>\<rparr>\<rparr>)\<rparr>,
                            addBits s (nbits (bitfield tgs)))))
               else sizer_field t s ty (Some tgs)
           | _ \<Rightarrow>
               (case Index0 v of
                  Inl err \<Rightarrow> (Some err, t, s)
                | Inr x \<Rightarrow>
                    (case k of
                       0 \<Rightarrow> (Some (Panic OutOfFuel), t, s)
                     | Suc k' \<Rightarrow>
                         (case size_finish
                                 (sz_transcode k' newTranscoder newSizer (Elem ty) x) of
                            Inl err \<Rightarrow> (Some err, t, s)
                          | Inr sz \<Rightarrow>
                              (case refLength v (fieldMap t nm) of
                                 Inl err \<Rightarrow> (Some err, t, s)
                               | Inr n \<Rightarrow> (None, t, addBits s (sz * n * 8))))))))"

fun depth :: "Type \<Rightarrow> nat" and depthFields :: "StructField list \<Rightarrow> nat" where
  "depth (Basic k) = 0"
| "depth (ArrayOf n t) = Suc (depth t)"
| "depth (SliceOf t) = Suc (depth t)"
| "depth (StructOf fs) = Suc (depthFields fs)"
| "depthFields [] = 0"
| "depthFields (StructField nm t tg sx ex # fs) = max (depth t) (depthFields fs)"

text \<open>\<open>size\<close> (and \<open>Size\<close>, which is \<open>size\<close> on the value handed over).\<close>

definition size_value :: "Type \<Rightarrow> Value \<Rightarrow> error + uint64" where
  "size_value ty v = size_finish (sz_transcode (depth ty) newTranscoder newSizer ty v)"

subsection \<open>The encoder under \<open>transcode\<close>\<close>

text \<open>\<open>bits.ReverseBytes16\<close>, \<open>32\<close> and \<open>64\<close> of the Go library.\<close>

definition ReverseBytes16 :: "16 word \<Rightarrow> 16 word" where
  "ReverseBytes16 x = drop_bit 8 x OR push_bit 8 x"

definition ReverseBytes32 :: "32 word \<Rightarrow> 32 word" where
  "ReverseBytes32 x =
     drop_bit 24 x OR (drop_bit 8 x AND 0xFF00) OR (push_bit 8 x AND 0xFF0000) OR push_bit 24 x"

definition ReverseBytes64 :: "64 word \<Rightarrow> 64 word" where
  "ReverseBytes64 x =
     drop_bit 56 x OR (drop_bit 40 x AND 0xFF00) OR (drop_bit 24 x AND 0xFF0000)
     OR (drop_bit 8 x AND 0xFF000000) OR (push_bit 8 x AND 0xFF00000000)
     OR (push_bit 24 x AND 0xFF0000000000) OR (push_bit 40 x AND 0xFF000000000000)
     OR push_bit 56 x"

text \<open>The \<open>switch\<close> of \<open>encoder.field\<close> for a field tagged big-endian.\<close>

definition bigEndian :: "Kind \<Rightarrow> uint64 \<Rightarrow> uint64" where
  "bigEndian k v =
     (if k = Uint16 \<or> k = Int16 then ucast (ReverseBytes16 (ucast v))
      else if k = Uint32 \<or> k = Int32 \<or> k = Uint \<or> k = IntK then ucast (ReverseBytes32 (ucast v))
      else if k = Uint64 \<or> k = Int64 then ReverseBytes64 v
      else v)"

definition encoder_field :: "encoder \<Rightarrow> Type \<Rightarrow> Value \<Rightarrow> tags option \<Rightarrow> error option \<times> encoder" where
  "encoder_field e ty v tgs =
     (case getValue ty v of
        Inl err \<Rightarrow> (Some err, e)
      | Inr x \<Rightarrow>
          (case tgs of
             None \<Rightarrow>
               (case Bits (KindOf ty) of
                  None \<Rightarrow> (Some (Panic (BitsOfNonArithmetic (KindOf ty))), e)
                | Some n \<Rightarrow> encoder_write e x (of_nat n))
           | Some tg \<Rightarrow>
               encoder_write e (if endian tg = big then bigEndian (KindOf ty) x else x)
                 (nbits (bitfield tg))))"

text \<open>
  \<open>encoder.layout\<close>: \<open>found\<close> is the array or slice the tag names, \<open>ref\<close> holds the
  tagged field.
\<close>

definition encoder_layout ::
  "encoder \<Rightarrow> Type \<times> Value \<Rightarrow> tagReference \<Rightarrow> error option \<times> encoder" where
  "encoder_layout e found ref =
     (case (if IsZero (rvalue ref) then
              (if format (layout (rtags ref)) = sizeOf then
                 (case Index0 (snd found) of
                    Inl err \<Rightarrow> Inl err
                  | Inr x \<Rightarrow>
                      (case size_value (Elem (fst found)) x of
                         Inl err \<Rightarrow> Inl err
                       | Inr sz \<Rightarrow> Inr (layoutValue (snd found) ref sz (byteOffset e))))
               else Inr (layoutValue (snd found) ref 0 (byteOffset e)))
            else getValue (rtype ref) (rvalue ref)) of
        Inl err \<Rightarrow> (Some err, e)
      | Inr x \<Rightarrow> encoder_write e x (nbits (bitfield (rtags ref))))"

text \<open>
  The number of elements \<open>encoder.array\<close> walks: \<open>l := arr.Len()\<close>, or
  \<open>int(ref.value.Uint())\<close>, which is negative from \<open>2 ^ 63\<close> on, so that the loop does not
  run.
\<close>

definition encoder_array_length :: "Value \<Rightarrow> tagReference option \<Rightarrow> error + nat" where
  "encoder_array_length arr ref =
     (case refLength arr ref of
        Inl err \<Rightarrow> Inl err
      | Inr n \<Rightarrow> Inr (if n \<ge> 2 ^ 63 then 0 else unat n))"

type_synonym encoded = "error option \<times> transcoder \<times> encoder"

text \<open>
  \<open>transcode\<close> with the encoder as its handler. \<open>enc_elems\<close> is the loop of
  \<open>encoder.array\<close> with the count of elements still to write; \<open>arr.Index(i)\<close> panics
  beyond the last element.
\<close>

fun enc_transcode :: "transcoder \<Rightarrow> encoder \<Rightarrow> Type \<Rightarrow> Value \<Rightarrow> encoded"
and enc_fields :: "transcoder \<Rightarrow> encoder \<Rightarrow> StructField list \<Rightarrow> Value list \<Rightarrow> encoded"
and enc_field :: "transcoder \<Rightarrow> encoder \<Rightarrow> StructField \<Rightarrow> Value \<Rightarrow> encoded"
and enc_elems :: "transcoder \<Rightarrow> encoder \<Rightarrow> Type \<Rightarrow> Value list \<Rightarrow> nat \<Rightarrow> encoded"
where
  "enc_transcode t e (StructOf fs) v =
     (case v of
        Fields vs \<Rightarrow>
          (case enc_fields (push t (StructOf fs, v)) e fs vs of
             (err, t', e') \<Rightarrow> (err, pop t', e'))
      | _ \<Rightarrow> (Some (Panic IllTyped), t, e))"
| "enc_transcode t e (Basic k) v =
     (case encoder_field e (Basic k) v None of (err, e') \<Rightarrow> (err, t, e'))"
| "enc_transcode t e (ArrayOf n et) v =
     (case encoder_field e (ArrayOf n et) v None of (err, e') \<Rightarrow> (err, t, e'))"
| "enc_transcode t e (SliceOf et) v =
     (case encoder_field e (SliceOf et) v None of (err, e') \<Rightarrow> (err, t, e'))"
| "enc_fields t e [] vs = (None, t, e)"
| "enc_fields t e (f # fs) [] = (Some (Panic IllTyped), t, e)"
| "enc_fields t e (f # fs) (v # vs) =
     (case enc_field t e f v of
        (Some err, t', e') \<Rightarrow> (Some err, t', e')
      | (None, t', e') \<Rightarrow> enc_fields t' e' fs vs)"
| "enc_field t e (StructField nm ty tg sx ex) v =
     (case parseFieldTags (StructField nm ty tg sx ex) of
        Inl err \<Rightarrow> (Some err, t, e)
      | Inr tgs \<Rightarrow>
          (case ty of
             StructOf fs \<Rightarrow> enc_transcode t e ty v
           | Basic k \<Rightarrow>
               if format (layout tgs) \<noteq> none then
                 (case findLayoutTarget t tgs of
                    Inl err \<Rightarrow> (Some err, t, e)
                  | Inr found \<Rightarrow>
                      (case encoder_layout e found \<lparr>rtype = ty, rvalue = v, rtags = tgs\<rparr> of
                         (Some err, e') \<Rightarrow> (Some err, t, e')
                       | (None, e') \<Rightarrow>
                           (None,
                            t\<lparr>fieldMap := (fieldMap t)(name (layout tgs) \<mapsto>
                                 \<lparr>rtype = ty, rvalue = v, rtags = tgs\<rparr>)\<rparr>,
                            e')))
               else (case encoder_field e ty v (Some tgs) of (err, e') \<Rightarrow> (err, t, e'))
           | _ \<Rightarrow>
               (case encoder_array_length v (fieldMap t nm) of
                  Inl err \<Rightarrow> (Some err, t, e)
                | Inr l \<Rightarrow>
                    (case v of
                       Elems xs \<Rightarrow> enc_elems t e (Elem ty) xs l
                     | _ \<Rightarrow> (Some (Panic IllTyped), t, e)))))"
| "enc_elems t e et xs 0 = (None, t, e)"
| "enc_elems t e et [] (Suc l) = (Some (Panic IndexOutOfRange), t, e)"
| "enc_elems t e et (x # xs) (Suc l) =
     (case enc_transcode t e et x of
        (Some err, t', e') \<Rightarrow> (Some err, t', e')
      | (None, t', e') \<Rightarrow> enc_elems t' e' et xs l)"

text \<open>
  \<open>Encode\<close> into a \<open>Buffer\<close>. (The walk does not depend on how the structure was handed
  over.)
\<close>

definition Encode :: "Buffer \<Rightarrow> Type \<Rightarrow> Value \<Rightarrow> error option \<times> encoder" where
  "Encode w ty v =
     (case enc_transcode newTranscoder
             \<lparr>currentByte = 0, byteOffset = 0, bitOffset = 0, writer = w\<rparr> ty v of
        (err, t', e') \<Rightarrow> (err, e'))"

subsection \<open>\<open>encoder.align\<close>\<close>

text \<open>
  The handler interface of \<open>transcode\<close> has the four methods \<open>field\<close>, \<open>layout\<close>,
  \<open>array\<close> and \<open>slice\<close>, and \<open>transcode\<close> calls no other: \<open>encoder.align\<close> stands beside
  the walk. Its second loop writes a zero byte until the byte offset is a multiple of
  the boundary; as \<open>write\<close> drops the error of a full sink, the loop need not end, and
  \<open>None\<close> is the run that does not return. A boundary of 0 panics in the test of the loop.
\<close>

partial_function (option) align_loop :: "encoder \<Rightarrow> uint64 \<Rightarrow> (error option \<times> encoder) option" where
  "align_loop e boundary =
     (if boundary = 0 then Some (Some (Panic DivideByZero), e)
      else if byteOffset e mod boundary \<noteq> 0 then
        (case encoder_write e 0 8 of
           (Some err, e') \<Rightarrow> Some (Some err, e')
         | (None, e') \<Rightarrow> align_loop e' boundary)
      else Some (None, e))"

definition encoder_align :: "encoder \<Rightarrow> uint64 \<Rightarrow> (error option \<times> encoder) option" where
  "encoder_align e boundary =
     (case (if bitOffset e \<noteq> 0 then encoder_write e 0 (8 - bitOffset e) else (None, e)) of
        (Some err, e') \<Rightarrow> Some (Some err, e')
      | (None, e') \<Rightarrow> align_loop e' boundary)"

section \<open>Properties\<close>

subsection \<open>Word arithmetic\<close>

lemma unat_pow2_64: "n < 64 \<Longrightarrow> unat (2 ^ n :: 64 word) = 2 ^ n"
proof -
  assume n: "n < 64"
  have "unat (2 ^ n :: 64 word) = unat (of_nat (2 ^ n) :: 64 word)" by simp
  also have "\<dots> = 2 ^ n mod 2 ^ 64" by (simp only: unat_of_nat len_of_numeral_defs) simp
  also have "\<dots> = 2 ^ n"
  proof -
    have "(2::nat) ^ n < 2 ^ 64" using n by (rule power_strict_increasing) simp
    then show ?thesis by (rule mod_less)
  qed
  finally show ?thesis .
qed

subsection \<open>The bit-level writer and overflow\<close>

text \<open>
  C3, as stated: a write of a value \<open>v\<close> in \<open>n\<close> bits with \<open>v \<ge> 2 ^ n\<close> fails with an
  overflow error. It does not hold for \<open>n = 1\<close>: both writers test \<open>n > 1\<close> before
  they compare, so the value 2 written in one bit is accepted by either.
\<close>

theorem write_one_bit_unchecked:
  "encoder_write
     \<lparr>currentByte = 0, byteOffset = 0, bitOffset = 0, writer = \<lparr>bytes = [0], offset = 0\<rparr>\<rparr> 2 1
   = (None,
      \<lparr>currentByte = 2, byteOffset = 0, bitOffset = 1, writer = \<lparr>bytes = [0], offset = 0\<rparr>\<rparr>)
   \<and> encoder_write_go
     \<lparr>currentByte = 0, byteOffset = 0, bitOffset = 0, writer = \<lparr>bytes = [0], offset = 0\<rparr>\<rparr> 2 1
   = (None,
      \<lparr>currentByte = 2, byteOffset = 0, bitOffset = 1, writer = \<lparr>bytes = [0], offset = 0\<rparr>\<rparr>)"
  by (simp add: encoder_write_def encoder_write_go_def write_rest_def write_loop.simps)

lemma write_loop_returns_nil: "fst (write_loop e v n) = None"
proof (induction e v n rule: write_loop.induct)
  case (1 e v n)
  show ?case
  proof (cases "n \<noteq> 0 \<and> \<not> n < 8")
    case True
    with 1 show ?thesis
      by (subst write_loop.simps) (simp add: Let_def)
  next
    case False
    then show ?thesis
      by (subst write_loop.simps) (auto simp: Let_def)
  qed
qed

text \<open>
  C3, amended: the writer of \<open>encoder.go\<close> reports an overflow, and writes nothing,
  whenever a value does not fit in \<open>n\<close> bits for \<open>2 \<le> n \<le> 63\<close>; a write of one bit or
  of none is exempt from the check in both writers: neither of them answers it with an
  overflow error, whatever the value.
\<close>

theorem encoder_write_go_overflow:
  "(1 < n \<and> n < 64 \<and> 2 ^ unat n \<le> unat v
      \<longrightarrow> encoder_write_go e v n = (Some (WillOverflow v n), e))
   \<and> (n \<le> 1 \<longrightarrow>
        (\<forall>a b. fst (encoder_write_go e v n) \<noteq> Some (WillOverflow a b))
      \<and> (\<forall>a b. fst (encoder_write e v n) \<noteq> Some (WillOverflow a b)))"
proof (intro conjI impI allI)
  assume a: "1 < n \<and> n < 64 \<and> 2 ^ unat n \<le> unat v"
  then have lt: "unat n < 64" by (simp add: word_less_nat_alt)
  have p: "unat (2 ^ unat n :: uint64) = 2 ^ unat n"
    using lt by (rule unat_pow2_64)
  have "unat (2 ^ unat n - 1 :: uint64) = 2 ^ unat n - 1"
    using p by (simp add: unat_sub word_le_nat_alt)
  moreover have "(0::nat) < 2 ^ unat n" by simp
  ultimately have "unat (2 ^ unat n - 1 :: uint64) < unat v"
    using a by linarith
  then have "v > 2 ^ unat n - 1"
    by (simp add: word_less_nat_alt)
  then show "encoder_write_go e v n = (Some (WillOverflow v n), e)"
    using a by (simp add: encoder_write_go_def Pow2_def)
next
  fix a b
  assume le: "n \<le> 1"
  then have "\<not> 1 < n" by simp
  moreover from le have "n < 8" by (simp add: word_le_nat_alt word_less_nat_alt)
  ultimately show "fst (encoder_write_go e v n) \<noteq> Some (WillOverflow a b)"
    by (simp add: encoder_write_go_def write_rest_def Let_def)
next
  fix a b
  assume le: "n \<le> 1"
  then have "\<not> 1 < n" by simp
  then have "fst (encoder_write e v n) = None"
    by (simp add: encoder_write_def Let_def write_loop_returns_nil)
  then show "fst (encoder_write e v n) \<noteq> Some (WillOverflow a b)" by simp
qed

theorem encoder_write_go_overflow_witness:
  "encoder_write_go
     \<lparr>currentByte = 0, byteOffset = 0, bitOffset = 0, writer = \<lparr>bytes = [0], offset = 0\<rparr>\<rparr> 8 3
   = (Some (WillOverflow 8 3),
      \<lparr>currentByte = 0, byteOffset = 0, bitOffset = 0, writer = \<lparr>bytes = [0], offset = 0\<rparr>\<rparr>)
   \<and> fst (encoder_write_go
     \<lparr>currentByte = 0, byteOffset = 0, bitOffset = 0, writer = \<lparr>bytes = [0], offset = 0\<rparr>\<rparr> 2 1)
   \<noteq> Some (WillOverflow 2 1)
   \<and> fst (encoder_write
     \<lparr>currentByte = 0, byteOffset = 0, bitOffset = 0, writer = \<lparr>bytes = [0], offset = 0\<rparr>\<rparr> 2 1)
   \<noteq> Some (WillOverflow 2 1)"
  using encoder_write_go_overflow [of 3 8
      "\<lparr>currentByte = 0, byteOffset = 0, bitOffset = 0, writer = \<lparr>bytes = [0], offset = 0\<rparr>\<rparr>"]
    encoder_write_go_overflow [of 1 2
      "\<lparr>currentByte = 0, byteOffset = 0, bitOffset = 0, writer = \<lparr>bytes = [0], offset = 0\<rparr>\<rparr>"]
  by simp

subsection \<open>Sub-byte reads\<close>

text \<open>
  C4: a read of \<open>n\<close> bits, \<open>1 \<le> n < 8\<close>, that asks for more bits than the byte being
  read has left fails with the insufficient-bits error and leaves the decoder as it was;
  and a sub-byte read inside a byte never fetches from the source.
\<close>

theorem read_insufficient_bits:
  assumes "1 \<le> n" and "n < 8" and "bitOffset d < 8"
  shows "(8 - bitOffset d < n \<longrightarrow> read d n = (Inl InsufficientBitCount, d))
       \<and> (bitOffset d \<noteq> 0 \<longrightarrow> reader (snd (read d n)) = reader d)"
proof -
  from assms(1) have nz: "n \<noteq> 0" by auto
  have a: "8 - bitOffset d < n \<Longrightarrow> bitOffset d \<noteq> 0"
    using assms(2) by auto
  show ?thesis
    using nz assms(2) a by (auto simp: read_def Let_def)
qed

theorem read_insufficient_bits_witness:
  "read \<lparr>currentByte = 0xC7, byteOffset = 0, bitOffset = 7, reader = byteBufferReader [0xFF]\<rparr> 4
   = (Inl InsufficientBitCount,
      \<lparr>currentByte = 0xC7, byteOffset = 0, bitOffset = 7, reader = byteBufferReader [0xFF]\<rparr>)"
  using read_insufficient_bits [of 4
      "\<lparr>currentByte = 0xC7, byteOffset = 0, bitOffset = 7, reader = byteBufferReader [0xFF]\<rparr>"]
  by simp

end
